theory Spec2Isabelle
  imports Main "HOL-Library.Word" "HOL-Library.Sublist"
begin

unbundle bit_operations_syntax

section \<open>v4l2ctl: the device facade of \<^verbatim>\<open>v4l2device.py\<close>\<close>

text \<open>
  The module \<^verbatim>\<open>v4l2device.py\<close> defines \<^verbatim>\<open>V4l2Format\<close>, \<^verbatim>\<open>V4l2Device\<close> and
  \<^verbatim>\<open>V4l2DeviceIterator\<close>. It imports the ioctl transport \<^verbatim>\<open>VidIocOps\<close>, the exception
  \<^verbatim>\<open>IoctlError\<close> and the enumerations \<^verbatim>\<open>V4l2BufferType\<close> and \<^verbatim>\<open>V4l2Capabilities\<close> from
  \<^verbatim>\<open>v4l2interface\<close>, and value types from \<^verbatim>\<open>v4l2types\<close> and \<^verbatim>\<open>v4l2frame\<close>. Those modules are
  not part of the sources at hand, so whatever they declare is a parameter of the model:
  the members of the two enumerations, the answers of the transport, and the files of the
  host.
\<close>

subsection \<open>Python values and exceptions\<close>

text \<open>
  Modelled from the spec: \<^verbatim>\<open>V4l2BufferType\<close> is declared in \<^verbatim>\<open>v4l2interface\<close>. A buffer type
  is a kernel-defined discriminator, an integer code with a name. The module hands members
  and plain integers alike to the transport as the \<^verbatim>\<open>type\<close> of a request, and looks members
  up by integer, so a member is its name and its integer value, and members compare by
  value, also with plain integers, as the members of a Python \<^verbatim>\<open>IntEnum\<close> do.
\<close>

datatype buftype = BufType (bt_name: string) (bt_value: int)

text \<open>
  The objects a caller can assign to \<^verbatim>\<open>buffer_type\<close>: a plain integer, a member of the
  enumeration, or something that is neither (a string stands for those).
\<close>

datatype pyval = PyInt int | PyEnum buftype | PyStr string

text \<open>Python's \<^verbatim>\<open>==\<close> on these objects.\<close>

fun py_eq :: "pyval \<Rightarrow> pyval \<Rightarrow> bool" where
  "py_eq (PyInt a) (PyInt b) = (a = b)"
| "py_eq (PyInt a) (PyEnum m) = (a = bt_value m)"
| "py_eq (PyEnum m) (PyInt b) = (bt_value m = b)"
| "py_eq (PyEnum m) (PyEnum n) = (bt_value m = bt_value n)"
| "py_eq (PyStr s) (PyStr t) = (s = t)"
| "py_eq _ _ = False"

text \<open>Python's \<^verbatim>\<open>x in xs\<close> for a list of members: some element equals \<open>x\<close>.\<close>

definition py_in :: "pyval \<Rightarrow> buftype list \<Rightarrow> bool" where
  "py_in x ms = list_ex (\<lambda>m. py_eq x (PyEnum m)) ms"

text \<open>
  Exceptions. The ones the module raises itself are constructors of their own. An
  exception that comes out of the transport is described by exactly what the module
  observes of it: whether \<^verbatim>\<open>except OSError\<close> catches it, whether \<^verbatim>\<open>except IoctlError\<close>
  catches it, and its text \<^verbatim>\<open>str(e)\<close>.
\<close>

datatype exn =
    FeatureNotSupported
  | ValueError
  | IndexError
  | KeyError string
  | AttributeError string
  | Raised bool bool string

fun is_OSError :: "exn \<Rightarrow> bool" where
  "is_OSError (Raised os io s) = os"
| "is_OSError _ = False"

fun is_IoctlError :: "exn \<Rightarrow> bool" where
  "is_IoctlError (Raised os io s) = io"
| "is_IoctlError _ = False"

fun exn_str :: "exn \<Rightarrow> string" where
  "exn_str (Raised os io s) = s"
| "exn_str (KeyError s) = s"
| "exn_str (AttributeError s) = s"
| "exn_str _ = []"

text \<open>Python's \<^verbatim>\<open>p in s\<close> on strings: \<open>p\<close> occurs in \<open>s\<close> as a contiguous piece.\<close>

fun str_contains :: "string \<Rightarrow> string \<Rightarrow> bool" where
  "str_contains p [] = (p = [])"
| "str_contains p (c # cs) = (prefix p (c # cs) \<or> str_contains p cs)"

subsection \<open>What \<^verbatim>\<open>v4l2interface\<close> declares\<close>

text \<open>
  The members of \<^verbatim>\<open>V4l2BufferType\<close> in declaration order, and the members of the flag
  enumeration \<^verbatim>\<open>V4l2Capabilities\<close> with their bits.
\<close>

record v4l2interface =
  buffer_types :: "buftype list"
  capability_flags :: "(string \<times> 32 word) list"

text \<open>
  Modelled from the spec: \<^verbatim>\<open>V4l2Capabilities\<close> is declared in \<^verbatim>\<open>v4l2interface\<close>. A capability
  set is a set of named flags decoded from a 32-bit integer, membership tested by
  bit-masking.
\<close>

datatype capset = V4l2Capabilities (cap_bits: "32 word")

text \<open>\<^verbatim>\<open>flag in caps\<close> on a flag enumeration: every bit of the flag is set in \<open>caps\<close>.\<close>

definition cap_in :: "32 word \<Rightarrow> capset \<Rightarrow> bool" where
  "cap_in flag caps = (flag AND cap_bits caps = flag)"

text \<open>\<^verbatim>\<open>V4l2Capabilities[name]\<close>: \<^verbatim>\<open>KeyError\<close> when no member has that name.\<close>

definition V4l2Capabilities_item :: "v4l2interface \<Rightarrow> string \<Rightarrow> exn + 32 word" where
  "V4l2Capabilities_item I n =
     (case map_of (capability_flags I) n of None \<Rightarrow> Inl (KeyError n) | Some b \<Rightarrow> Inr b)"

text \<open>\<^verbatim>\<open>V4l2Capabilities.NAME\<close>: \<^verbatim>\<open>AttributeError\<close> when no member has that name.\<close>

definition V4l2Capabilities_attr :: "v4l2interface \<Rightarrow> string \<Rightarrow> exn + 32 word" where
  "V4l2Capabilities_attr I n =
     (case map_of (capability_flags I) n of None \<Rightarrow> Inl (AttributeError n) | Some b \<Rightarrow> Inr b)"

text \<open>\<^verbatim>\<open>V4l2BufferType.NAME\<close>.\<close>

definition V4l2BufferType_attr :: "v4l2interface \<Rightarrow> string \<Rightarrow> buftype option" where
  "V4l2BufferType_attr I n = find (\<lambda>m. bt_name m = n) (buffer_types I)"

text \<open>
  \<^verbatim>\<open>V4l2BufferType(x)\<close>: a member is returned as it is, an integer is looked up among the
  values, and anything else is not a valid value (\<^verbatim>\<open>ValueError\<close>).
\<close>

fun V4l2BufferType_call :: "v4l2interface \<Rightarrow> pyval \<Rightarrow> exn + buftype" where
  "V4l2BufferType_call I (PyEnum m) = Inr m"
| "V4l2BufferType_call I (PyInt i) =
     (case find (\<lambda>m. bt_value m = i) (buffer_types I) of
        None \<Rightarrow> Inl ValueError
      | Some m \<Rightarrow> Inr m)"
| "V4l2BufferType_call I (PyStr s) = Inl ValueError"

subsection \<open>The transport and its structures\<close>

text \<open>
  The kernel structures, with the fields the module reads. Byte strings are modelled as
  the text they decode to.
\<close>

record v4l2_capability =
  cap_driver :: string
  cap_card :: string
  cap_bus_info :: string
  cap_version :: "32 word"
  cap_capabilities :: "32 word"
  cap_device_caps :: "32 word"

record v4l2_fmtdesc =
  pixelformat :: "32 word"
  description :: string
  flags :: "32 word"

text \<open>Structures the module only passes on: their content is not inspected here.\<close>

datatype v4l2_frmsizeenum = Frmsizeenum "32 word list"
datatype v4l2_cropcap = Cropcap "int list"
datatype v4l2_rect = Rect int int int int
datatype v4l2_crop = Crop (crop_c: v4l2_rect)

text \<open>
  \<^verbatim>\<open>V4l2CroppingCapabilities._from_v4l2\<close>, \<^verbatim>\<open>V4l2Rectangle._from_v4l2\<close> and \<^verbatim>\<open>V4l2FrameSize\<close>
  wrap a structure; a wrapped value is written as the wrapper applied to the structure.
\<close>

datatype V4l2CroppingCapabilities = V4l2CroppingCapabilities_from_v4l2 v4l2_cropcap
datatype V4l2Rectangle = V4l2Rectangle_from_v4l2 (to_v4l2: v4l2_rect)

text \<open>
  \<^verbatim>\<open>VidIocOps\<close>: each operation is given by its answer, an exception or a structure. The
  requests the module issues are recorded separately, as effects.
\<close>

record VidIocOps =
  query_cap :: "exn + v4l2_capability"
  enum_fmt :: "nat \<Rightarrow> pyval \<Rightarrow> exn + v4l2_fmtdesc"
  enum_frame_sizes :: "nat \<Rightarrow> 32 word \<Rightarrow> exn + v4l2_frmsizeenum"
  crop_cap :: "pyval \<Rightarrow> exn + v4l2_cropcap"
  get_crop :: "pyval \<Rightarrow> exn + v4l2_crop"
  set_crop :: "pyval \<Rightarrow> v4l2_rect \<Rightarrow> exn + unit"

datatype ioctl =
    QUERYCAP
  | CROPCAP pyval
  | G_CROP pyval
  | S_CROP pyval v4l2_rect

text \<open>What an operation does besides returning: kernel requests, and lines on standard output.\<close>

datatype effect = Ioctl ioctl | Stdout "buftype list"

subsection \<open>\<^verbatim>\<open>V4l2Device\<close>\<close>

record V4l2Device =
  m_device :: string
  m_ioc_ops :: VidIocOps
  m_driver :: string
  m_name :: string
  m_bus :: string
  m_version :: "32 word \<times> 32 word \<times> 32 word"
  m_physical_caps :: capset
  m_device_caps :: capset
  m_supported_buffer_types :: "buftype list"
  m_buffer_type :: pyval

text \<open>The argument of the constructor: a path, or the number after \<^verbatim>\<open>/dev/video\<close>.\<close>

datatype devarg = DevPath string | DevInt int

fun digits :: "nat \<Rightarrow> string" where
  "digits n = (if n < 10 then [''0123456789'' ! n]
               else digits (n div 10) @ [''0123456789'' ! (n mod 10)])"

definition str_of_int :: "int \<Rightarrow> string" where
  "str_of_int i = (if i < 0 then CHR ''-'' # digits (nat (- i)) else digits (nat i))"

definition device_path :: "devarg \<Rightarrow> string" where
  "device_path a = (case a of DevInt i \<Rightarrow> ''/dev/video'' @ str_of_int i | DevPath p \<Rightarrow> p)"

text \<open>
  The comprehension \<^verbatim>\<open>[buftype for buftype in V4l2BufferType
  if V4l2Capabilities[buftype.name] in self._device_caps]\<close>, members taken in declaration
  order; the first name without a capability raises \<^verbatim>\<open>KeyError\<close>.
\<close>

fun find_supported :: "v4l2interface \<Rightarrow> capset \<Rightarrow> buftype list \<Rightarrow> exn + buftype list" where
  "find_supported I caps [] = Inr []"
| "find_supported I caps (b # bs) =
     (case V4l2Capabilities_item I (bt_name b) of
        Inl e \<Rightarrow> Inl e
      | Inr flag \<Rightarrow>
          (case find_supported I caps bs of
             Inl e \<Rightarrow> Inl e
           | Inr r \<Rightarrow> Inr (if cap_in flag caps then b # r else r)))"

text \<open>
  \<^verbatim>\<open>V4l2Device.__init__\<close>. \<open>open_ops\<close> is \<^verbatim>\<open>VidIocOps(device)\<close> on the host: the transport
  of that device file, or the exception opening it raises.
\<close>

definition V4l2Device_init ::
  "v4l2interface \<Rightarrow> (string \<Rightarrow> exn + VidIocOps) \<Rightarrow> devarg \<Rightarrow> (exn + V4l2Device) \<times> effect list" where
  "V4l2Device_init I open_ops arg =
     (let device = device_path arg in
      case open_ops device of
        Inl e \<Rightarrow> (Inl e, [])
      | Inr ops \<Rightarrow>
     (case query_cap ops of
        Inl e \<Rightarrow> (Inl e, [Ioctl QUERYCAP])
      | Inr caps \<Rightarrow>
     (let version = (drop_bit 16 (cap_version caps AND 0xFF0000),
                     drop_bit 8 (cap_version caps AND 0x00FF00),
                     cap_version caps AND 0x0000FF);
          physical_caps = V4l2Capabilities (cap_capabilities caps) in
      case V4l2Capabilities_attr I ''DEVICE_CAPS'' of
        Inl e \<Rightarrow> (Inl e, [Ioctl QUERYCAP])
      | Inr DEVICE_CAPS \<Rightarrow>
     (let device_caps = (if cap_in DEVICE_CAPS physical_caps
                         then V4l2Capabilities (cap_device_caps caps)
                         else physical_caps) in
      case find_supported I device_caps (buffer_types I) of
        Inl e \<Rightarrow> (Inl e, [Ioctl QUERYCAP])
      | Inr supported \<Rightarrow>
     (case supported of
        [] \<Rightarrow> (Inl IndexError, [Ioctl QUERYCAP, Stdout supported])
      | first # _ \<Rightarrow>
          (Inr \<lparr> m_device = device, m_ioc_ops = ops,
                 m_driver = cap_driver caps, m_name = cap_card caps, m_bus = cap_bus_info caps,
                 m_version = version,
                 m_physical_caps = physical_caps, m_device_caps = device_caps,
                 m_supported_buffer_types = supported,
                 m_buffer_type = PyEnum first \<rparr>,
           [Ioctl QUERYCAP, Stdout supported]))))))"


text \<open>The read-only properties.\<close>

definition supported_buffer_types :: "V4l2Device \<Rightarrow> buftype list" where
  "supported_buffer_types self = m_supported_buffer_types self"

definition buffer_type :: "V4l2Device \<Rightarrow> pyval" where
  "buffer_type self = m_buffer_type self"

definition capabilities :: "V4l2Device \<Rightarrow> capset" where
  "capabilities self = m_device_caps self"

definition physical_capabilities :: "V4l2Device \<Rightarrow> capset" where
  "physical_capabilities self = m_physical_caps self"

text \<open>
  The setter of \<^verbatim>\<open>buffer_type\<close>. An operation on a device returns its outcome, the device
  after it, and its effects.
\<close>

definition buffer_type_setter ::
  "v4l2interface \<Rightarrow> V4l2Device \<Rightarrow> pyval \<Rightarrow> (exn + unit) \<times> V4l2Device \<times> effect list" where
  "buffer_type_setter I self v =
     (case V4l2BufferType_call I v of
        Inl e \<Rightarrow> (Inl e, self, [])
      | Inr m \<Rightarrow>
          if \<not> py_in (PyEnum m) (supported_buffer_types self)
          then (Inl ValueError, self, [])
          else (Inr (), self\<lparr>m_buffer_type := v\<rparr>, []))"

text \<open>
  The class attribute \<^verbatim>\<open>cropping_buffer_types\<close>, five members looked up by name when the
  class is created; \<open>None\<close> when one of the names is not declared. The class body then
  fails with \<^verbatim>\<open>AttributeError\<close> and there is no class to call; the model reports that
  error from the operation that reads the attribute.
\<close>

definition cropping_buffer_types :: "v4l2interface \<Rightarrow> buftype list option" where
  "cropping_buffer_types I =
     those (map (V4l2BufferType_attr I)
       [''VIDEO_CAPTURE'', ''VIDEO_CAPTURE_MPLANE'', ''VIDEO_OUTPUT'',
        ''VIDEO_OUTPUT_MPLANE'', ''VIDEO_OVERLAY''])"

definition cropping_capabilities ::
  "v4l2interface \<Rightarrow> V4l2Device \<Rightarrow> (exn + V4l2CroppingCapabilities) \<times> effect list" where
  "cropping_capabilities I self =
     (case cropping_buffer_types I of
        None \<Rightarrow> (Inl (AttributeError ''V4l2BufferType''), [])
      | Some cbt \<Rightarrow>
          if \<not> py_in (buffer_type self) cbt
          then (Inl FeatureNotSupported, [])
          else (case crop_cap (m_ioc_ops self) (buffer_type self) of
                  Inl e \<Rightarrow> (Inl e, [Ioctl (CROPCAP (buffer_type self))])
                | Inr crop_caps \<Rightarrow>
                    (Inr (V4l2CroppingCapabilities_from_v4l2 crop_caps),
                     [Ioctl (CROPCAP (buffer_type self))])))"

text \<open>The getter and the setter of \<^verbatim>\<open>cropping_rectangle\<close>.\<close>

definition cropping_rectangle ::
  "V4l2Device \<Rightarrow> (exn + V4l2Rectangle) \<times> effect list" where
  "cropping_rectangle self =
     (case get_crop (m_ioc_ops self) (m_buffer_type self) of
        Inl e \<Rightarrow>
          (if is_IoctlError e
           then (if str_contains ''Errno 22'' (exn_str e) then Inl FeatureNotSupported
                 else Inl e)
           else Inl e,
           [Ioctl (G_CROP (m_buffer_type self))])
      | Inr cropping \<Rightarrow>
          (Inr (V4l2Rectangle_from_v4l2 (crop_c cropping)),
           [Ioctl (G_CROP (m_buffer_type self))]))"

definition cropping_rectangle_setter ::
  "V4l2Device \<Rightarrow> V4l2Rectangle \<Rightarrow> (exn + unit) \<times> V4l2Device \<times> effect list" where
  "cropping_rectangle_setter self rectangle =
     (case set_crop (m_ioc_ops self) (m_buffer_type self) (to_v4l2 rectangle) of
        Inl e \<Rightarrow>
          (if is_IoctlError e
           then (if str_contains ''Errno 25'' (exn_str e) then Inl FeatureNotSupported
                 else Inr ())
           else Inl e,
           self, [Ioctl (S_CROP (m_buffer_type self) (to_v4l2 rectangle))])
      | Inr u \<Rightarrow>
          (Inr (), self, [Ioctl (S_CROP (m_buffer_type self) (to_v4l2 rectangle))]))"

subsection \<open>The enumeration walks\<close>

text \<open>
  A generator is modelled by what consuming it to its end gives: the items it yields, and
  how it ends, normally (\<open>None\<close>) or with an exception that reaches the caller.
\<close>

record V4l2Format =
  f_ioc_ops :: VidIocOps
  f_fmt_desc :: v4l2_fmtdesc

datatype V4l2FrameSize = V4l2FrameSize VidIocOps v4l2_frmsizeenum

function sizes_from :: "V4l2Format \<Rightarrow> nat \<Rightarrow> V4l2FrameSize list \<times> exn option" where
  "sizes_from self fr_idx =
     (if fr_idx < 2 ^ 32
      then (case enum_frame_sizes (f_ioc_ops self) fr_idx (pixelformat (f_fmt_desc self)) of
              Inl e \<Rightarrow> if is_OSError e then ([], None) else ([], Some e)
            | Inr frm_size \<Rightarrow>
                (case sizes_from self (fr_idx + 1) of
                   (rest, ending) \<Rightarrow> (V4l2FrameSize (f_ioc_ops self) frm_size # rest, ending)))
      else ([], None))"
  by pat_completeness auto
termination
  by (relation "measure (\<lambda>(self, fr_idx). 2 ^ 32 - fr_idx)") auto

definition sizes :: "V4l2Format \<Rightarrow> V4l2FrameSize list \<times> exn option" where
  "sizes self = sizes_from self 0"

function iter_buffer_formats_from ::
  "V4l2Device \<Rightarrow> pyval \<Rightarrow> nat \<Rightarrow> V4l2Format list \<times> exn option" where
  "iter_buffer_formats_from self bt idx =
     (if idx < 2 ^ 32
      then (case enum_fmt (m_ioc_ops self) idx bt of
              Inl e \<Rightarrow> if is_OSError e then ([], None) else ([], Some e)
            | Inr fmt_desc \<Rightarrow>
                (case iter_buffer_formats_from self bt (idx + 1) of
                   (rest, ending) \<Rightarrow>
                     (\<lparr>f_ioc_ops = m_ioc_ops self, f_fmt_desc = fmt_desc\<rparr> # rest, ending)))
      else ([], None))"
  by pat_completeness auto
termination
  by (relation "measure (\<lambda>(self, bt, idx). 2 ^ 32 - idx)") auto

definition iter_buffer_formats :: "V4l2Device \<Rightarrow> pyval \<Rightarrow> V4l2Format list \<times> exn option" where
  "iter_buffer_formats self bt = iter_buffer_formats_from self bt 0"

definition formats :: "V4l2Device \<Rightarrow> V4l2Format list \<times> exn option" where
  "formats self = iter_buffer_formats self (buffer_type self)"

declare sizes_from.simps [simp del]
declare iter_buffer_formats_from.simps [simp del]

subsection \<open>The operations of the facade\<close>

text \<open>
  The operations a caller can perform on a constructed device, and the device after each.
  Only the setter of \<^verbatim>\<open>buffer_type\<close> assigns a field.
\<close>

datatype facade_op =
    Set_buffer_type pyval
  | Get_cropping_capabilities
  | Get_cropping_rectangle
  | Set_cropping_rectangle V4l2Rectangle
  | Get_formats
  | Iter_buffer_formats pyval
  | Read_property

fun after_op :: "v4l2interface \<Rightarrow> V4l2Device \<Rightarrow> facade_op \<Rightarrow> V4l2Device" where
  "after_op I self (Set_buffer_type v) = fst (snd (buffer_type_setter I self v))"
| "after_op I self (Set_cropping_rectangle r) = fst (snd (cropping_rectangle_setter self r))"
| "after_op I self _ = self"

definition after_ops :: "v4l2interface \<Rightarrow> V4l2Device \<Rightarrow> facade_op list \<Rightarrow> V4l2Device" where
  "after_ops I self ops = foldl (after_op I) self ops"

subsection \<open>\<^verbatim>\<open>V4l2DeviceIterator\<close>\<close>

text \<open>
  The host: what \<^verbatim>\<open>Path("/dev").glob(pattern)\<close> lists, which paths are symbolic links,
  what a path resolves to, and the transport of each device file.
\<close>

record host =
  glob :: "string \<Rightarrow> string list"
  is_symlink :: "string \<Rightarrow> bool"
  resolve :: "string \<Rightarrow> string"
  open_ops :: "string \<Rightarrow> exn + VidIocOps"

definition v4l2_device_prefixes :: "string list" where
  "v4l2_device_prefixes = [''video'', ''radio'', ''vbi'', ''swradio'', ''v4l-subdev'']"

definition collect_devices :: "host \<Rightarrow> string list" where
  "collect_devices h = concat (map (\<lambda>prefix. glob h (prefix @ ''*'')) v4l2_device_prefixes)"

text \<open>The indices of the redundant links, in increasing order.\<close>

definition find_redundant :: "host \<Rightarrow> string list \<Rightarrow> nat list" where
  "find_redundant h dev_list =
     map fst (filter (\<lambda>(idx, dev). is_symlink h dev \<and> resolve h dev \<in> set dev_list)
                (enumerate 0 dev_list))"

text \<open>\<^verbatim>\<open>del dev_list[dev_idx]\<close> for each index in turn; \<^verbatim>\<open>IndexError\<close> out of range.\<close>

fun del_each :: "'a list \<Rightarrow> nat list \<Rightarrow> exn + 'a list" where
  "del_each dev_list [] = Inr dev_list"
| "del_each dev_list (dev_idx # rest) =
     (if dev_idx < length dev_list
      then del_each (take dev_idx dev_list @ drop (Suc dev_idx) dev_list) rest
      else Inl IndexError)"

text \<open>The paths \<^verbatim>\<open>__iter__\<close> goes on to open.\<close>

definition scan_devices :: "host \<Rightarrow> bool \<Rightarrow> exn + string list" where
  "scan_devices h skip_links =
     (let dev_list = collect_devices h in
      if skip_links
      then del_each dev_list (rev (find_redundant h dev_list))
      else Inr dev_list)"

fun try_devices :: "v4l2interface \<Rightarrow> host \<Rightarrow> string list \<Rightarrow> V4l2Device list \<times> exn option" where
  "try_devices I h [] = ([], None)"
| "try_devices I h (dev # rest) =
     (case fst (V4l2Device_init I (open_ops h) (DevPath dev)) of
        Inl e \<Rightarrow> if is_OSError e then try_devices I h rest else ([], Some e)
      | Inr dev_instance \<Rightarrow>
          (case try_devices I h rest of (ds, ending) \<Rightarrow> (dev_instance # ds, ending)))"

definition V4l2DeviceIterator_iter ::
  "v4l2interface \<Rightarrow> host \<Rightarrow> bool \<Rightarrow> V4l2Device list \<times> exn option" where
  "V4l2DeviceIterator_iter I h skip_links =
     (case scan_devices h skip_links of
        Inl e \<Rightarrow> ([], Some e)
      | Inr dev_list \<Rightarrow> try_devices I h dev_list)"

subsection \<open>Notions used to state the properties\<close>

text \<open>
  The capability bit that corresponds to a buffer type is the flag of the same name; it
  is present in a capability set when the flag is declared and all its bits are set.
\<close>

definition capability_present :: "v4l2interface \<Rightarrow> capset \<Rightarrow> buftype \<Rightarrow> bool" where
  "capability_present I caps b =
     (case map_of (capability_flags I) (bt_name b) of
        None \<Rightarrow> False
      | Some flag \<Rightarrow> cap_in flag caps)"

text \<open>The invariant of the facade: the selected buffer type is in the supported list.\<close>

definition selection_supported :: "V4l2Device \<Rightarrow> bool" where
  "selection_supported self = py_in (buffer_type self) (supported_buffer_types self)"

subsection \<open>A device to run the model on\<close>

text \<open>
  Part of the kernel's numbering of buffer types and capability bits, and a capture
  device that reports the capabilities \<^verbatim>\<open>VIDEO_CAPTURE\<close>, \<^verbatim>\<open>VIDEO_OUTPUT\<close>, \<^verbatim>\<open>VBI_CAPTURE\<close> and
  \<^verbatim>\<open>DEVICE_CAPS\<close> for the physical device and \<^verbatim>\<open>VIDEO_CAPTURE\<close>, \<^verbatim>\<open>VBI_CAPTURE\<close> for the
  device file. It has two formats, one frame size, and no cropping rectangle.
\<close>

definition example_interface :: v4l2interface where
  "example_interface =
     \<lparr> buffer_types =
         [BufType ''VIDEO_CAPTURE'' 1, BufType ''VIDEO_OUTPUT'' 2, BufType ''VIDEO_OVERLAY'' 3,
          BufType ''VBI_CAPTURE'' 4, BufType ''VIDEO_CAPTURE_MPLANE'' 9,
          BufType ''VIDEO_OUTPUT_MPLANE'' 10],
       capability_flags =
         [(''VIDEO_CAPTURE'', 0x00000001), (''VIDEO_OUTPUT'', 0x00000002),
          (''VIDEO_OVERLAY'', 0x00000004), (''VBI_CAPTURE'', 0x00000010),
          (''VIDEO_CAPTURE_MPLANE'', 0x00001000), (''VIDEO_OUTPUT_MPLANE'', 0x00002000),
          (''DEVICE_CAPS'', 0x80000000)] \<rparr>"

definition example_caps :: v4l2_capability where
  "example_caps =
     \<lparr> cap_driver = ''uvcvideo'', cap_card = ''camera'', cap_bus_info = ''usb-1'',
       cap_version = 0x050F02, cap_capabilities = 0x80000013, cap_device_caps = 0x00000011 \<rparr>"

definition example_fmt :: "nat \<Rightarrow> v4l2_fmtdesc" where
  "example_fmt idx = \<lparr> pixelformat = 0x100 + of_nat idx, description = ''format'', flags = 0 \<rparr>"

definition EINVAL :: exn where
  "EINVAL = Raised True True ''[Errno 22] Invalid argument''"

definition EIO :: exn where
  "EIO = Raised True True ''[Errno 5] Input/output error''"

definition example_ops :: VidIocOps where
  "example_ops =
     \<lparr> query_cap = Inr example_caps,
       enum_fmt = (\<lambda>idx bt. if idx < 2 then Inr (example_fmt idx) else Inl EINVAL),
       enum_frame_sizes = (\<lambda>idx pf. if idx < 1 then Inr (Frmsizeenum [640, 480])
                                      else Inl (Raised False False ''bad argument'')),
       crop_cap = (\<lambda>bt. Inr (Cropcap [0, 0, 640, 480])),
       get_crop = (\<lambda>bt. Inl EINVAL),
       set_crop = (\<lambda>bt r. Inl EIO) \<rparr>"

definition example_open :: "string \<Rightarrow> exn + VidIocOps" where
  "example_open p = (if p = ''/dev/video0'' \<or> p = ''/dev/video1'' then Inr example_ops
                     else Inl (Raised True False ''[Errno 2] No such file or directory''))"

definition example_device :: V4l2Device where
  "example_device =
     \<lparr> m_device = ''/dev/video0'', m_ioc_ops = example_ops,
       m_driver = ''uvcvideo'', m_name = ''camera'', m_bus = ''usb-1'',
       m_version = (5, 15, 2),
       m_physical_caps = V4l2Capabilities 0x80000013,
       m_device_caps = V4l2Capabilities 0x00000011,
       m_supported_buffer_types = [BufType ''VIDEO_CAPTURE'' 1, BufType ''VBI_CAPTURE'' 4],
       m_buffer_type = PyEnum (BufType ''VIDEO_CAPTURE'' 1) \<rparr>"

definition example_format :: V4l2Format where
  "example_format = \<lparr> f_ioc_ops = example_ops, f_fmt_desc = example_fmt 0 \<rparr>"

text \<open>The same device on a transport whose second format query fails with an I/O error.\<close>

definition failing_ops :: VidIocOps where
  "failing_ops =
     example_ops \<lparr> enum_fmt := (\<lambda>idx bt. if idx < 1 then Inr (example_fmt idx) else Inl EIO) \<rparr>"

definition failing_device :: V4l2Device where
  "failing_device = example_device \<lparr> m_ioc_ops := failing_ops \<rparr>"

text \<open>A host with one video device and a symbolic link to it.\<close>

definition example_host :: host where
  "example_host =
     \<lparr> glob = (\<lambda>pattern. if pattern = ''video*'' then [''/dev/video0'', ''/dev/video1''] else []),
       is_symlink = (\<lambda>p. p = ''/dev/video1''),
       resolve = (\<lambda>p. if p = ''/dev/video1'' then ''/dev/video0'' else p),
       open_ops = example_open \<rparr>"


section \<open>Properties\<close>

subsection \<open>Auxiliary facts\<close>

lemma find_supported_filter:
  "\<forall>b\<in>set bs. map_of (capability_flags I) (bt_name b) \<noteq> None \<Longrightarrow>
   find_supported I caps bs = Inr (filter (capability_present I caps) bs)"
  by (induction bs) (auto simp: V4l2Capabilities_item_def capability_present_def)

lemma py_in_iff: "py_in x ms \<longleftrightarrow> (\<exists>m\<in>set ms. py_eq x (PyEnum m))"
  by (simp add: py_in_def list_ex_iff)

lemma py_eq_call:
  "V4l2BufferType_call I v = Inr m \<Longrightarrow> py_eq v (PyEnum n) = py_eq (PyEnum m) (PyEnum n)"
  by (cases v) (auto split: option.splits dest: find_Some_iff [THEN iffD1])

lemma py_in_call:
  "V4l2BufferType_call I v = Inr m \<Longrightarrow> py_in v ms = py_in (PyEnum m) ms"
  by (simp add: py_in_iff py_eq_call)

lemma V4l2Device_init_Inr:
  assumes "V4l2Device_init I opn arg = (Inr self, tr)"
  obtains ops caps DEVICE_CAPS first rest where
    "opn (device_path arg) = Inr ops"
    "query_cap ops = Inr caps"
    "V4l2Capabilities_attr I ''DEVICE_CAPS'' = Inr DEVICE_CAPS"
    "find_supported I (if cap_in DEVICE_CAPS (V4l2Capabilities (cap_capabilities caps))
                       then V4l2Capabilities (cap_device_caps caps)
                       else V4l2Capabilities (cap_capabilities caps)) (buffer_types I)
       = Inr (first # rest)"
    "m_physical_caps self = V4l2Capabilities (cap_capabilities caps)"
    "m_device_caps self = (if cap_in DEVICE_CAPS (V4l2Capabilities (cap_capabilities caps))
                       then V4l2Capabilities (cap_device_caps caps)
                       else V4l2Capabilities (cap_capabilities caps))"
    "m_supported_buffer_types self = first # rest"
    "m_buffer_type self = PyEnum first"
    "tr = [Ioctl QUERYCAP, Stdout (first # rest)]"
proof -
  let ?init = "V4l2Device_init I opn arg"
  obtain ops where 1: "opn (device_path arg) = Inr ops"
    using assms by (cases "opn (device_path arg)") (simp_all add: V4l2Device_init_def)
  obtain caps where 2: "query_cap ops = Inr caps"
    using assms 1 by (cases "query_cap ops") (simp_all add: V4l2Device_init_def)
  obtain DC where 3: "V4l2Capabilities_attr I ''DEVICE_CAPS'' = Inr DC"
    using assms 1 2
    by (cases "V4l2Capabilities_attr I ''DEVICE_CAPS''") (simp_all add: V4l2Device_init_def)
  let ?dc = "if cap_in DC (V4l2Capabilities (cap_capabilities caps))
             then V4l2Capabilities (cap_device_caps caps)
             else V4l2Capabilities (cap_capabilities caps)"
  obtain supported where 4: "find_supported I ?dc (buffer_types I) = Inr supported"
    using assms 1 2 3
    by (cases "find_supported I ?dc (buffer_types I)") (simp_all add: V4l2Device_init_def)
  obtain first rest where 5: "supported = first # rest"
    using assms 1 2 3 4 by (cases supported) (simp_all add: V4l2Device_init_def)
  have "m_physical_caps self = V4l2Capabilities (cap_capabilities caps)"
    "m_device_caps self = ?dc" "m_supported_buffer_types self = first # rest"
    "m_buffer_type self = PyEnum first" "tr = [Ioctl QUERYCAP, Stdout (first # rest)]"
    using assms 1 2 3 4 5 by (auto simp: V4l2Device_init_def Let_def)
  with that [OF 1 2 3] 4 5 show thesis
    by simp
qed

lemma V4l2BufferType_call_Inl:
  "V4l2BufferType_call I v = Inl e \<Longrightarrow> e = ValueError"
  by (cases v) (simp_all split: option.splits)

lemma buffer_type_setter_eq:
  "buffer_type_setter I self v =
     (if (\<exists>m. V4l2BufferType_call I v = Inr m) \<and> py_in v (supported_buffer_types self)
      then (Inr (), self\<lparr>m_buffer_type := v\<rparr>, [])
      else (Inl ValueError, self, []))"
proof (cases "V4l2BufferType_call I v")
  case (Inl e)
  then show ?thesis
    by (simp add: buffer_type_setter_def V4l2BufferType_call_Inl [OF Inl])
next
  case (Inr m)
  then show ?thesis
    by (simp add: buffer_type_setter_def py_in_call [OF Inr])
qed

lemma after_op_supported:
  assumes "selection_supported self"
  shows "selection_supported (after_op I self op)"
proof (cases op)
  case (Set_buffer_type v)
  with assms show ?thesis
    by (simp add: buffer_type_setter_eq selection_supported_def buffer_type_def
                  supported_buffer_types_def)
next
  case (Set_cropping_rectangle r)
  have "fst (snd (cropping_rectangle_setter self r)) = self"
    by (simp add: cropping_rectangle_setter_def split: sum.splits)
  with assms Set_cropping_rectangle show ?thesis by simp
qed (simp_all add: assms)

lemma after_ops_supported:
  "selection_supported self \<Longrightarrow> selection_supported (after_ops I self ops)"
  unfolding after_ops_def
  by (induction ops arbitrary: self) (simp_all add: after_op_supported)

lemma del_each_append:
  "del_each xs js = Inr r \<Longrightarrow> del_each (xs @ ys) js = Inr (r @ ys)"
proof (induction js arbitrary: xs)
  case Nil
  then show ?case by simp
next
  case (Cons j js)
  from Cons.prems have j: "j < length xs"
    by (simp split: if_splits)
  with Cons.prems have "del_each (take j xs @ drop (Suc j) xs) js = Inr r"
    by simp
  from Cons.IH [OF this] j show ?case
    by simp
qed

lemma del_each_marked:
  "del_each xs (rev (map fst (filter (\<lambda>(idx, x). P x) (enumerate 0 xs))))
     = Inr (filter (\<lambda>x. \<not> P x) xs)"
proof (induction xs rule: rev_induct)
  case Nil
  show ?case by simp
next
  case (snoc x xs)
  show ?case
  proof (cases "P x")
    case True
    with snoc show ?thesis
      by (simp add: enumerate_append_eq)
  next
    case False
    with del_each_append [OF snoc, of "[x]"] show ?thesis
      by (simp add: enumerate_append_eq)
  qed
qed


lemma those_attr_names:
  "those (map (V4l2BufferType_attr I) ns) = Some ms \<Longrightarrow> map bt_name ms = ns"
proof (induction ns arbitrary: ms)
  case Nil
  then show ?case by simp
next
  case (Cons n ns)
  then obtain m ms' where m: "V4l2BufferType_attr I n = Some m"
    and ms': "those (map (V4l2BufferType_attr I) ns) = Some ms'" and ms: "ms = m # ms'"
    by (auto split: option.splits)
  from m have "bt_name m = n"
    by (auto simp: V4l2BufferType_attr_def find_Some_iff)
  with Cons.IH [OF ms'] ms show ?case by simp
qed

lemma iter_buffer_formats_from_walk:
  assumes "n < 2 ^ 32" and "idx \<le> n"
    and "\<forall>i. idx \<le> i \<and> i < n \<longrightarrow> enum_fmt (m_ioc_ops self) i bt = Inr (fd i)"
    and "enum_fmt (m_ioc_ops self) n bt = Inl e"
  shows "iter_buffer_formats_from self bt idx =
           (map (\<lambda>i. \<lparr>f_ioc_ops = m_ioc_ops self, f_fmt_desc = fd i\<rparr>) [idx..<n],
            if is_OSError e then None else Some e)"
  using assms
proof (induction "n - idx" arbitrary: idx)
  case 0
  then have "idx = n" by simp
  with 0 show ?case
    by (simp add: iter_buffer_formats_from.simps [of self bt n])
next
  case (Suc k)
  then have lt: "idx < n" and k: "k = n - (idx + 1)" and le: "idx + 1 \<le> n" by simp_all
  from Suc.prems lt have here: "enum_fmt (m_ioc_ops self) idx bt = Inr (fd idx)" by simp
  from Suc.prems have rest:
    "\<forall>i. idx + 1 \<le> i \<and> i < n \<longrightarrow> enum_fmt (m_ioc_ops self) i bt = Inr (fd i)" by simp
  have ih: "iter_buffer_formats_from self bt (idx + 1) =
           (map (\<lambda>i. \<lparr>f_ioc_ops = m_ioc_ops self, f_fmt_desc = fd i\<rparr>) [idx + 1..<n],
            if is_OSError e then None else Some e)"
    by (rule Suc.hyps(1) [OF k Suc.prems(1) le rest Suc.prems(4)])
  from lt Suc.prems(1) have "idx < 2 ^ 32" by simp
  with here ih lt show ?case
    by (simp add: iter_buffer_formats_from.simps [of self bt idx] upt_conv_Cons)
qed

lemma sizes_from_walk:
  assumes "n < 2 ^ 32" and "idx \<le> n"
    and "\<forall>i. idx \<le> i \<and> i < n \<longrightarrow> enum_frame_sizes (f_ioc_ops self) i (pixelformat (f_fmt_desc self)) = Inr (fd i)"
    and "enum_frame_sizes (f_ioc_ops self) n (pixelformat (f_fmt_desc self)) = Inl e"
  shows "sizes_from self idx =
           (map (\<lambda>i. V4l2FrameSize (f_ioc_ops self) (fd i)) [idx..<n],
            if is_OSError e then None else Some e)"
  using assms
proof (induction "n - idx" arbitrary: idx)
  case 0
  then have "idx = n" by simp
  with 0 show ?case
    by (simp add: sizes_from.simps [of self n])
next
  case (Suc k)
  then have lt: "idx < n" and k: "k = n - (idx + 1)" and le: "idx + 1 \<le> n" by simp_all
  from Suc.prems lt have here: "enum_frame_sizes (f_ioc_ops self) idx (pixelformat (f_fmt_desc self)) = Inr (fd idx)" by simp
  from Suc.prems have rest:
    "\<forall>i. idx + 1 \<le> i \<and> i < n \<longrightarrow> enum_frame_sizes (f_ioc_ops self) i (pixelformat (f_fmt_desc self)) = Inr (fd i)" by simp
  have ih: "sizes_from self (idx + 1) =
           (map (\<lambda>i. V4l2FrameSize (f_ioc_ops self) (fd i)) [idx + 1..<n],
            if is_OSError e then None else Some e)"
    by (rule Suc.hyps(1) [OF k Suc.prems(1) le rest Suc.prems(4)])
  from lt Suc.prems(1) have "idx < 2 ^ 32" by simp
  with here ih lt show ?case
    by (simp add: sizes_from.simps [of self idx] upt_conv_Cons)
qed

lemma cropping_rectangle_errors:
  assumes "get_crop (m_ioc_ops self) (m_buffer_type self) = Inl e"
  shows "cropping_rectangle self =
           (Inl (if is_IoctlError e \<and> str_contains ''Errno 22'' (exn_str e)
                 then FeatureNotSupported else e),
            [Ioctl (G_CROP (m_buffer_type self))])"
  using assms by (simp add: cropping_rectangle_def)

lemma cropping_rectangle_setter_errors:
  assumes "set_crop (m_ioc_ops self) (m_buffer_type self) (to_v4l2 r) = Inl e"
  shows "fst (cropping_rectangle_setter self r) =
           (if is_IoctlError e
            then (if str_contains ''Errno 25'' (exn_str e) then Inl FeatureNotSupported
                  else Inr ())
            else Inl e)"
  using assms by (simp add: cropping_rectangle_setter_def)

subsection \<open>The example device\<close>

lemma example_path: "device_path (DevInt 0) = ''/dev/video0''"
  by (simp add: device_path_def str_of_int_def)

lemma example_open_video0: "example_open ''/dev/video0'' = Inr example_ops"
  by (simp add: example_open_def)

lemma example_query_cap:
  "query_cap example_ops = Inr example_caps"
  by (simp add: example_ops_def)

lemma example_DEVICE_CAPS:
  "V4l2Capabilities_attr example_interface ''DEVICE_CAPS'' = Inr 0x80000000"
  by (simp add: V4l2Capabilities_attr_def example_interface_def)

lemma example_find_supported:
  "find_supported example_interface (V4l2Capabilities 0x00000011) (buffer_types example_interface)
     = Inr [BufType ''VIDEO_CAPTURE'' 1, BufType ''VBI_CAPTURE'' 4]"
  by (simp add: example_interface_def V4l2Capabilities_item_def cap_in_def)

lemma example_init:
  "V4l2Device_init example_interface example_open (DevInt 0) =
     (Inr example_device,
      [Ioctl QUERYCAP, Stdout [BufType ''VIDEO_CAPTURE'' 1, BufType ''VBI_CAPTURE'' 4]])"
  by (simp add: V4l2Device_init_def Let_def example_path example_open_video0 example_query_cap
                example_DEVICE_CAPS cap_in_def example_find_supported example_device_def
                example_caps_def)

lemma example_set_4:
  "buffer_type_setter example_interface example_device (PyInt 4) =
     (Inr (), example_device\<lparr>m_buffer_type := PyInt 4\<rparr>, [])"
  by (simp add: buffer_type_setter_def example_interface_def py_in_def
                supported_buffer_types_def example_device_def)

lemma example_cropping_buffer_types:
  "cropping_buffer_types example_interface =
     Some [BufType ''VIDEO_CAPTURE'' 1, BufType ''VIDEO_CAPTURE_MPLANE'' 9,
           BufType ''VIDEO_OUTPUT'' 2, BufType ''VIDEO_OUTPUT_MPLANE'' 10,
           BufType ''VIDEO_OVERLAY'' 3]"
  by (simp add: cropping_buffer_types_def V4l2BufferType_attr_def example_interface_def)

subsection \<open>The selected buffer type\<close>

text \<open>
  Claim C1. For every successfully constructed \<^verbatim>\<open>V4l2Device\<close>, the currently selected
  buffer type is a member of the device's list of supported buffer types, right after
  construction and after every sequence of operations on the facade, whether an
  assignment to \<^verbatim>\<open>buffer_type\<close> among them succeeds or not. Membership is Python's
  \<^verbatim>\<open>in\<close>.
\<close>

theorem C1_selected_buffer_type_supported:
  assumes "V4l2Device_init I opn arg = (Inr self, tr)"
  shows "py_in (buffer_type (after_ops I self ops))
               (supported_buffer_types (after_ops I self ops))"
proof -
  from assms have "selection_supported self"
    by (rule V4l2Device_init_Inr)
       (simp add: selection_supported_def buffer_type_def supported_buffer_types_def py_in_iff)
  then have "selection_supported (after_ops I self ops)"
    by (rule after_ops_supported)
  then show ?thesis by (simp add: selection_supported_def)
qed

theorem C1_witness:
  "V4l2Device_init example_interface example_open (DevInt 0) =
     (Inr example_device,
      [Ioctl QUERYCAP, Stdout [BufType ''VIDEO_CAPTURE'' 1, BufType ''VBI_CAPTURE'' 4]]) \<and>
   py_in (buffer_type (after_ops example_interface example_device
            [Set_buffer_type (PyInt 4), Set_buffer_type (PyInt 2), Get_cropping_capabilities]))
         (supported_buffer_types (after_ops example_interface example_device
            [Set_buffer_type (PyInt 4), Set_buffer_type (PyInt 2), Get_cropping_capabilities]))"
  using C1_selected_buffer_type_supported [OF example_init,
      of "[Set_buffer_type (PyInt 4), Set_buffer_type (PyInt 2), Get_cropping_capabilities]"]
    example_init
  by simp

text \<open>
  Claim C4. Assigning to \<^verbatim>\<open>buffer_type\<close> a value that is not in the list of supported
  buffer types raises \<^verbatim>\<open>ValueError\<close>, the invalid-selection error, with no kernel request
  issued, and leaves the device, so also its selection, as it was.
\<close>

theorem C4_unsupported_selection_rejected:
  assumes "\<not> py_in v (supported_buffer_types self)"
  shows "buffer_type_setter I self v = (Inl ValueError, self, [])"
  using assms by (simp add: buffer_type_setter_eq)

theorem C4_witness:
  "\<not> py_in (PyInt 2) (supported_buffer_types example_device) \<and>
   buffer_type_setter example_interface example_device (PyInt 2) =
     (Inl ValueError, example_device, [])"
  using C4_unsupported_selection_rejected [of "PyInt 2" example_device example_interface]
  by (simp add: py_in_def supported_buffer_types_def example_device_def)

text \<open>
  Claim C10. The setter of \<^verbatim>\<open>buffer_type\<close> stores its argument as it is: the list of
  supported types is searched for the argument converted to the enumeration, but the
  argument itself is assigned. After a successful assignment of a plain integer the getter
  returns that integer, which is not a member of the enumeration.
\<close>

theorem C10_setter_stores_raw_argument:
  assumes "buffer_type_setter I self v = (Inr (), self', tr)"
  shows "buffer_type self' = v \<and>
         (\<exists>m. V4l2BufferType_call I v = Inr m \<and> py_in (PyEnum m) (supported_buffer_types self)) \<and>
         (\<forall>i. v = PyInt i \<longrightarrow> buffer_type self' = PyInt i \<and> (\<forall>m. buffer_type self' \<noteq> PyEnum m))"
proof -
  from assms obtain m where m: "V4l2BufferType_call I v = Inr m"
    and "py_in v (supported_buffer_types self)" and s: "self' = self\<lparr>m_buffer_type := v\<rparr>"
    by (auto simp: buffer_type_setter_eq split: if_splits)
  then have "py_in (PyEnum m) (supported_buffer_types self)"
    by (simp add: py_in_call [OF m])
  with m s show ?thesis by (auto simp: buffer_type_def)
qed

theorem C10_witness:
  "buffer_type_setter example_interface example_device (PyInt 4) =
     (Inr (), example_device\<lparr>m_buffer_type := PyInt 4\<rparr>, []) \<and>
   buffer_type (example_device\<lparr>m_buffer_type := PyInt 4\<rparr>) = PyInt 4 \<and>
   buffer_type (example_device\<lparr>m_buffer_type := PyInt 4\<rparr>) \<noteq> PyEnum (BufType ''VBI_CAPTURE'' 4)"
  using C10_setter_stores_raw_argument [OF example_set_4] example_set_4
  by simp

subsection \<open>Construction\<close>

text \<open>
  Claim C6. For every constructed \<^verbatim>\<open>V4l2Device\<close>: the physical capability set is decoded
  from the \<^verbatim>\<open>capabilities\<close> field of the answer to the capability query; if the flag
  \<^verbatim>\<open>DEVICE_CAPS\<close> is absent from it, the device-specific capability set equals the physical
  one; if the flag is present, the device-specific set is decoded from the field
  \<^verbatim>\<open>device_caps\<close>.
\<close>

theorem C6_device_caps:
  assumes "V4l2Device_init I opn arg = (Inr self, tr)"
  shows "\<exists>ops caps DEVICE_CAPS.
           opn (device_path arg) = Inr ops \<and> query_cap ops = Inr caps \<and>
           V4l2Capabilities_attr I ''DEVICE_CAPS'' = Inr DEVICE_CAPS \<and>
           physical_capabilities self = V4l2Capabilities (cap_capabilities caps) \<and>
           (\<not> cap_in DEVICE_CAPS (physical_capabilities self) \<longrightarrow>
              capabilities self = physical_capabilities self) \<and>
           (cap_in DEVICE_CAPS (physical_capabilities self) \<longrightarrow>
              capabilities self = V4l2Capabilities (cap_device_caps caps))"
  using assms
proof (rule V4l2Device_init_Inr)
  fix ops caps DEVICE_CAPS
  assume "opn (device_path arg) = Inr ops" "query_cap ops = Inr caps"
    "V4l2Capabilities_attr I ''DEVICE_CAPS'' = Inr DEVICE_CAPS"
    "m_physical_caps self = V4l2Capabilities (cap_capabilities caps)"
    "m_device_caps self =
       (if cap_in DEVICE_CAPS (V4l2Capabilities (cap_capabilities caps))
        then V4l2Capabilities (cap_device_caps caps)
        else V4l2Capabilities (cap_capabilities caps))"
  then show ?thesis
    by (intro exI [of _ ops] exI [of _ caps] exI [of _ DEVICE_CAPS])
       (simp add: capabilities_def physical_capabilities_def)
qed

theorem C6_witness:
  "V4l2Device_init example_interface example_open (DevInt 0) =
     (Inr example_device,
      [Ioctl QUERYCAP, Stdout [BufType ''VIDEO_CAPTURE'' 1, BufType ''VBI_CAPTURE'' 4]]) \<and>
   cap_in 0x80000000 (physical_capabilities example_device) \<and>
   capabilities example_device = V4l2Capabilities 0x00000011"
  using C6_device_caps [OF example_init] example_init
  by (simp add: cap_in_def capabilities_def physical_capabilities_def example_device_def)

text \<open>
  Claim C5. When the device file opens, the capability query succeeds and every buffer
  type has a capability of its name, the supported list is the list of the buffer types
  whose capability bit is present in the device-specific capability set, in declaration
  order. If that list is empty the construction fails (with \<^verbatim>\<open>IndexError\<close>); otherwise it
  succeeds and the selected buffer type is the first entry of the list.
\<close>

theorem C5_supported_list_and_default:
  assumes opened: "opn (device_path arg) = Inr ops"
    and queried: "query_cap ops = Inr caps"
    and flag: "V4l2Capabilities_attr I ''DEVICE_CAPS'' = Inr DEVICE_CAPS"
    and named: "\<forall>b\<in>set (buffer_types I). map_of (capability_flags I) (bt_name b) \<noteq> None"
    and dcaps: "device_caps =
                  (if cap_in DEVICE_CAPS (V4l2Capabilities (cap_capabilities caps))
                   then V4l2Capabilities (cap_device_caps caps)
                   else V4l2Capabilities (cap_capabilities caps))"
    and supp: "supported = filter (capability_present I device_caps) (buffer_types I)"
  shows "case fst (V4l2Device_init I opn arg) of
           Inl e \<Rightarrow> supported = [] \<and> e = IndexError
         | Inr self \<Rightarrow>
             supported \<noteq> [] \<and> capabilities self = device_caps \<and>
             supported_buffer_types self = supported \<and>
             buffer_type self = PyEnum (hd supported)"
proof -
  have fs: "find_supported I device_caps (buffer_types I) = Inr supported"
    using find_supported_filter [OF named] supp by simp
  show ?thesis
  proof (cases supported)
    case Nil
    with opened queried flag fs dcaps show ?thesis
      by (simp add: V4l2Device_init_def Let_def)
  next
    case (Cons first rest)
    with opened queried flag fs dcaps show ?thesis
      by (simp add: V4l2Device_init_def Let_def capabilities_def supported_buffer_types_def
                    buffer_type_def)
  qed
qed

theorem C5_witness:
  "filter (capability_present example_interface (V4l2Capabilities 0x00000011))
          (buffer_types example_interface)
     = [BufType ''VIDEO_CAPTURE'' 1, BufType ''VBI_CAPTURE'' 4] \<and>
   fst (V4l2Device_init example_interface example_open (DevInt 0)) = Inr example_device \<and>
   supported_buffer_types example_device = [BufType ''VIDEO_CAPTURE'' 1, BufType ''VBI_CAPTURE'' 4] \<and>
   buffer_type example_device = PyEnum (BufType ''VIDEO_CAPTURE'' 1)"
proof -
  have opened: "example_open (device_path (DevInt 0)) = Inr example_ops"
    by (simp add: example_path example_open_video0)
  have named: "\<forall>b\<in>set (buffer_types example_interface).
                 map_of (capability_flags example_interface) (bt_name b) \<noteq> None"
    by (simp add: example_interface_def)
  have dcaps: "V4l2Capabilities 0x00000011 =
                 (if cap_in 0x80000000 (V4l2Capabilities (cap_capabilities example_caps))
                  then V4l2Capabilities (cap_device_caps example_caps)
                  else V4l2Capabilities (cap_capabilities example_caps))"
    by (simp add: cap_in_def example_caps_def)
  have supp: "filter (capability_present example_interface (V4l2Capabilities 0x00000011))
                     (buffer_types example_interface) =
              [BufType ''VIDEO_CAPTURE'' 1, BufType ''VBI_CAPTURE'' 4]"
    by (simp add: capability_present_def example_interface_def cap_in_def)
  from C5_supported_list_and_default
         [where opn = example_open and arg = "DevInt 0",
          OF opened example_query_cap example_DEVICE_CAPS named dcaps supp [symmetric]]
       example_init supp
  show ?thesis
    by (simp add: supported_buffer_types_def buffer_type_def)
qed

text \<open>
  Claim C9 says that no operation of this layer writes to standard output or to a log.
  The constructor does: between the computation of the supported list and the choice of
  the default it prints the list (\<^verbatim>\<open>print(self._supported_buffer_types)\<close>), so constructing
  the example device has two effects, the capability query and a line on standard output.
\<close>

theorem C9_constructor_prints:
  "snd (V4l2Device_init example_interface example_open (DevInt 0)) =
     [Ioctl QUERYCAP, Stdout [BufType ''VIDEO_CAPTURE'' 1, BufType ''VBI_CAPTURE'' 4]]"
  using example_init by simp

subsection \<open>Device discovery\<close>

text \<open>
  Claim C8. With link-skipping, the paths that discovery goes on to open are the
  collected paths without those that are a symbolic link whose resolved target is among
  the collected paths: every such link is removed, every other entry (so every entry that
  is not a link) is kept, and the entries kept stay in their order. Without link-skipping
  all collected paths are kept. Deleting by index from the end backward never goes out of
  range.
\<close>

theorem C8_link_skipping:
  "scan_devices h True =
     Inr (filter (\<lambda>dev. \<not> (is_symlink h dev \<and> resolve h dev \<in> set (collect_devices h)))
            (collect_devices h)) \<and>
   scan_devices h False = Inr (collect_devices h)"
  using del_each_marked [of "collect_devices h"
      "\<lambda>dev. is_symlink h dev \<and> resolve h dev \<in> set (collect_devices h)"]
  by (simp add: scan_devices_def find_redundant_def Let_def)

theorem C8_witness:
  "scan_devices example_host True = Inr [''/dev/video0''] \<and>
   scan_devices example_host False = Inr [''/dev/video0'', ''/dev/video1'']"
  using C8_link_skipping [of example_host]
  by (simp add: collect_devices_def v4l2_device_prefixes_def example_host_def)

subsection \<open>Cropping\<close>

text \<open>
  Claim C7. The class attribute \<^verbatim>\<open>cropping_buffer_types\<close> holds the members named
  \<^verbatim>\<open>VIDEO_CAPTURE\<close>, \<^verbatim>\<open>VIDEO_CAPTURE_MPLANE\<close>, \<^verbatim>\<open>VIDEO_OUTPUT\<close>, \<^verbatim>\<open>VIDEO_OUTPUT_MPLANE\<close> and
  \<^verbatim>\<open>VIDEO_OVERLAY\<close>. If the selected buffer type is not among them, reading
  \<^verbatim>\<open>cropping_capabilities\<close> raises \<^verbatim>\<open>FeatureNotSupported\<close> and issues no kernel request. If
  it is, exactly one request is issued, the crop-capability query for the selected type,
  and the outcome is that of the query: its answer, decoded, or the exception it raised.
\<close>

theorem C7_cropping_capabilities:
  assumes "cropping_buffer_types I = Some cbt"
  shows "map bt_name cbt = [''VIDEO_CAPTURE'', ''VIDEO_CAPTURE_MPLANE'', ''VIDEO_OUTPUT'',
                            ''VIDEO_OUTPUT_MPLANE'', ''VIDEO_OVERLAY''] \<and>
         (\<not> py_in (buffer_type self) cbt \<longrightarrow>
            cropping_capabilities I self = (Inl FeatureNotSupported, [])) \<and>
         (py_in (buffer_type self) cbt \<longrightarrow>
            cropping_capabilities I self =
              (case crop_cap (m_ioc_ops self) (buffer_type self) of
                 Inl e \<Rightarrow> Inl e
               | Inr crop_caps \<Rightarrow> Inr (V4l2CroppingCapabilities_from_v4l2 crop_caps),
               [Ioctl (CROPCAP (buffer_type self))]))"
proof -
  from assms have "map bt_name cbt = [''VIDEO_CAPTURE'', ''VIDEO_CAPTURE_MPLANE'',
      ''VIDEO_OUTPUT'', ''VIDEO_OUTPUT_MPLANE'', ''VIDEO_OVERLAY'']"
    unfolding cropping_buffer_types_def by (rule those_attr_names)
  moreover from assms have "\<not> py_in (buffer_type self) cbt \<Longrightarrow>
      cropping_capabilities I self = (Inl FeatureNotSupported, [])"
    by (simp add: cropping_capabilities_def)
  moreover from assms have "py_in (buffer_type self) cbt \<Longrightarrow>
      cropping_capabilities I self =
        (case crop_cap (m_ioc_ops self) (buffer_type self) of
           Inl e \<Rightarrow> Inl e
         | Inr crop_caps \<Rightarrow> Inr (V4l2CroppingCapabilities_from_v4l2 crop_caps),
         [Ioctl (CROPCAP (buffer_type self))])"
    by (simp add: cropping_capabilities_def split: sum.splits)
  ultimately show ?thesis by blast
qed

theorem C7_witness:
  "cropping_capabilities example_interface (example_device\<lparr>m_buffer_type := PyInt 4\<rparr>)
     = (Inl FeatureNotSupported, []) \<and>
   cropping_capabilities example_interface example_device
     = (Inr (V4l2CroppingCapabilities_from_v4l2 (Cropcap [0, 0, 640, 480])),
        [Ioctl (CROPCAP (PyEnum (BufType ''VIDEO_CAPTURE'' 1)))])"
  using C7_cropping_capabilities [OF example_cropping_buffer_types,
          of "example_device\<lparr>m_buffer_type := PyInt 4\<rparr>"]
        C7_cropping_capabilities [OF example_cropping_buffer_types, of example_device]
  by (simp add: py_in_def buffer_type_def example_device_def example_ops_def)

text \<open>
  Claim C3 says that the accessors of the cropping rectangle turn one errno into
  \<^verbatim>\<open>FeatureNotSupported\<close> (22 on get, 25 on set) and let every other error reach the caller.
  The getter does (\<open>cropping_rectangle_errors\<close>). The setter has no \<^verbatim>\<open>else: raise\<close>: an
  \<^verbatim>\<open>IoctlError\<close> whose text does not contain \<^verbatim>\<open>Errno 25\<close> is caught and dropped
  (\<open>cropping_rectangle_setter_errors\<close>). On the example device the kernel refuses the new
  rectangle with errno 5, and the assignment ends normally.
\<close>

theorem C3_setter_swallows_other_errors:
  "set_crop (m_ioc_ops example_device) (m_buffer_type example_device) (Rect 0 0 640 480) = Inl EIO \<and>
   is_IoctlError EIO \<and> \<not> str_contains ''Errno 25'' (exn_str EIO) \<and>
   cropping_rectangle_setter example_device (V4l2Rectangle_from_v4l2 (Rect 0 0 640 480)) =
     (Inr (), example_device,
      [Ioctl (S_CROP (PyEnum (BufType ''VIDEO_CAPTURE'' 1)) (Rect 0 0 640 480))])"
  by (simp add: cropping_rectangle_setter_def example_device_def example_ops_def EIO_def)

subsection \<open>Enumeration\<close>

text \<open>
  Claim C2, as the code has it. Both walks (the formats of a buffer type, the frame sizes
  of a format) query the indices 0, 1, 2, ... and yield one item for each answer. At the
  first index whose query raises, the walk ends: normally, when the exception is an
  \<^verbatim>\<open>OSError\<close>, whatever its errno; with the exception reaching the caller, when it is not an
  \<^verbatim>\<open>OSError\<close>.
\<close>

theorem C2_walk_ends_at_first_OSError:
  assumes "n < 2 ^ 32"
  shows "((\<forall>i<n. enum_fmt (m_ioc_ops dev) i bt = Inr (fd i)) \<and>
          enum_fmt (m_ioc_ops dev) n bt = Inl e \<longrightarrow>
          iter_buffer_formats dev bt =
            (map (\<lambda>i. \<lparr>f_ioc_ops = m_ioc_ops dev, f_fmt_desc = fd i\<rparr>) [0..<n],
             if is_OSError e then None else Some e)) \<and>
         ((\<forall>i<n. enum_frame_sizes (f_ioc_ops fmt) i (pixelformat (f_fmt_desc fmt)) = Inr (fs i)) \<and>
          enum_frame_sizes (f_ioc_ops fmt) n (pixelformat (f_fmt_desc fmt)) = Inl e' \<longrightarrow>
          sizes fmt =
            (map (\<lambda>i. V4l2FrameSize (f_ioc_ops fmt) (fs i)) [0..<n],
             if is_OSError e' then None else Some e'))"
proof (intro conjI impI)
  assume "(\<forall>i<n. enum_fmt (m_ioc_ops dev) i bt = Inr (fd i)) \<and>
          enum_fmt (m_ioc_ops dev) n bt = Inl e"
  then show "iter_buffer_formats dev bt =
            (map (\<lambda>i. \<lparr>f_ioc_ops = m_ioc_ops dev, f_fmt_desc = fd i\<rparr>) [0..<n],
             if is_OSError e then None else Some e)"
    unfolding iter_buffer_formats_def
    by (intro iter_buffer_formats_from_walk [OF assms]) simp_all
next
  assume "(\<forall>i<n. enum_frame_sizes (f_ioc_ops fmt) i (pixelformat (f_fmt_desc fmt)) = Inr (fs i)) \<and>
          enum_frame_sizes (f_ioc_ops fmt) n (pixelformat (f_fmt_desc fmt)) = Inl e'"
  then show "sizes fmt =
            (map (\<lambda>i. V4l2FrameSize (f_ioc_ops fmt) (fs i)) [0..<n],
             if is_OSError e' then None else Some e')"
    unfolding sizes_def
    by (intro sizes_from_walk [OF assms]) simp_all
qed

theorem C2_witness:
  "iter_buffer_formats example_device (PyInt 1) =
     ([\<lparr>f_ioc_ops = example_ops, f_fmt_desc = example_fmt 0\<rparr>,
       \<lparr>f_ioc_ops = example_ops, f_fmt_desc = example_fmt 1\<rparr>], None) \<and>
   sizes example_format =
     ([V4l2FrameSize example_ops (Frmsizeenum [640, 480])],
      Some (Raised False False ''bad argument''))"
proof -
  have two: "(2::nat) < 2 ^ 32" and one: "(1::nat) < 2 ^ 32" by simp_all
  have f: "(\<forall>i<2. enum_fmt (m_ioc_ops example_device) i (PyInt 1) = Inr (example_fmt i)) \<and>
           enum_fmt (m_ioc_ops example_device) 2 (PyInt 1) = Inl EINVAL"
    by (simp add: example_device_def example_ops_def)
  have s: "(\<forall>i<1. enum_frame_sizes (f_ioc_ops example_format) i
                     (pixelformat (f_fmt_desc example_format)) = Inr (Frmsizeenum [640, 480])) \<and>
           enum_frame_sizes (f_ioc_ops example_format) 1
             (pixelformat (f_fmt_desc example_format)) = Inl (Raised False False ''bad argument'')"
    by (simp add: example_format_def example_ops_def)
  have upt2: "[0..<2] = [0, 1::nat]" by (simp add: upt_rec)
  from C2_walk_ends_at_first_OSError [OF two, where dev = example_device and bt = "PyInt 1"
         and fd = example_fmt and e = EINVAL, THEN conjunct1, rule_format, OF f]
  have "iter_buffer_formats example_device (PyInt 1) =
     ([\<lparr>f_ioc_ops = example_ops, f_fmt_desc = example_fmt 0\<rparr>,
       \<lparr>f_ioc_ops = example_ops, f_fmt_desc = example_fmt 1\<rparr>], None)"
    by (simp add: upt2 EINVAL_def example_device_def)
  moreover
  from C2_walk_ends_at_first_OSError [OF one, where fmt = example_format
         and fs = "\<lambda>i. Frmsizeenum [640, 480]" and e' = "Raised False False ''bad argument''",
         THEN conjunct2, rule_format, OF s]
  have "sizes example_format =
     ([V4l2FrameSize example_ops (Frmsizeenum [640, 480])],
      Some (Raised False False ''bad argument''))"
    by (simp add: example_format_def)
  ultimately show ?thesis by simp
qed

text \<open>
  As stated, claim C2 lets only an invalid-argument error end a walk, and has any other
  failure reach the caller. On the failing transport the second format query raises an
  \<^verbatim>\<open>OSError\<close> with errno 5, not 22, and the walk ends normally after one item.
\<close>

theorem C2_counterexample:
  "enum_fmt (m_ioc_ops failing_device) 1 (PyInt 1) = Inl EIO \<and>
   \<not> str_contains ''Errno 22'' (exn_str EIO) \<and>
   iter_buffer_formats failing_device (PyInt 1) =
     ([\<lparr>f_ioc_ops = failing_ops, f_fmt_desc = example_fmt 0\<rparr>], None)"
proof -
  have one: "(1::nat) < 2 ^ 32" by simp
  have ops: "m_ioc_ops failing_device = failing_ops"
    by (simp add: failing_device_def)
  have f: "\<forall>i. 0 \<le> i \<and> i < 1 \<longrightarrow> enum_fmt (m_ioc_ops failing_device) i (PyInt 1) = Inr (example_fmt i)"
    and g: "enum_fmt (m_ioc_ops failing_device) 1 (PyInt 1) = Inl EIO"
    by (simp_all add: ops failing_ops_def)
  have "iter_buffer_formats failing_device (PyInt 1) =
     ([\<lparr>f_ioc_ops = failing_ops, f_fmt_desc = example_fmt 0\<rparr>], None)"
    using iter_buffer_formats_from_walk [OF one _ f g]
    by (simp add: iter_buffer_formats_def ops EIO_def)
  moreover have "\<not> str_contains ''Errno 22'' (exn_str EIO)"
    by (simp add: EIO_def)
  ultimately show ?thesis using g by simp
qed

end
